theory Spec2Isabelle
  imports Main
begin

section \<open>The update script of facefusion-libero\<close>

text \<open>
  The repository is one JavaScript module, \<^verbatim>\<open>update.js\<close>. It exports an arrow function
  without formal parameters whose body evaluates one object literal, binds it to the
  constant \<^verbatim>\<open>config\<close> and returns it:
  \<^verbatim>\<open>
  module.exports = () =>
  {
    const config =
    {
      run:
      [
        { method: 'shell.run', params: { 'message': 'git pull' } },
        { method: 'shell.run', params: { message: 'git pull --tags', path: 'facefusion' } },
        { method: 'shell.run', params: { message: 'git checkout 2.5.3', path: 'facefusion' } }
      ]
    };
    return config;
  };
  \<close>
  JavaScript objects and arrays are mutable and have identity, and several of the
  properties below are about identity and about what a call leaves untouched. The
  embedding therefore keeps an explicit store: an object or array literal allocates a
  fresh cell, and a value is a primitive or a reference to a cell.
\<close>

subsection \<open>Values, store and world\<close>

datatype jsval = Undefined | Str string | Ref nat

text \<open>
  An object keeps its own properties in insertion order (all keys of this program are
  plain names, which JavaScript enumerates in that order); an array keeps its elements.
\<close>

datatype jsobj = Object "(string \<times> jsval) list" | Array "jsval list"

text \<open>
  What a host can observe of a running module besides the returned value: processes
  spawned, files touched, network requests made.
\<close>

datatype host_effect = Spawn string | File_access string | Network string

text \<open>
  The world a call runs in. The address of a cell is its index in \<open>heap\<close>; \<open>globals\<close>
  are the process-wide bindings (global variables, the environment), \<open>effects\<close> the
  trace of what the process did to its host so far.
\<close>

record world =
  heap :: "jsobj list"
  globals :: "(string \<times> jsval) list"
  effects :: "host_effect list"

text \<open>How a call ends: with a returned value, or with a thrown one.\<close>

datatype outcome = Returned jsval | Thrown jsval

text \<open>
  An object literal \<^verbatim>\<open>{k1: v1, ...}\<close> whose property values are already evaluated: a new
  cell at the first free address. The keys of each literal of this program are distinct,
  so the property list is the literal's list.
\<close>

definition new_object :: "(string \<times> jsval) list \<Rightarrow> world \<Rightarrow> jsval \<times> world" where
  "new_object ps w = (Ref (length (heap w)), w\<lparr>heap := heap w @ [Object ps]\<rparr>)"

text \<open>An array literal \<^verbatim>\<open>[v1, ...]\<close>, likewise.\<close>

definition new_array :: "jsval list \<Rightarrow> world \<Rightarrow> jsval \<times> world" where
  "new_array xs w = (Ref (length (heap w)), w\<lparr>heap := heap w @ [Array xs]\<rparr>)"

subsection \<open>The exported function\<close>

text \<open>
  \<open>update args w\<close> is a call of the exported function with the actual arguments \<open>args\<close>
  in the world \<open>w\<close>. The arrow function declares no parameter (and, being an arrow
  function, has no \<^verbatim>\<open>arguments\<close> object), so no argument is bound. The body has
  no other statement than the binding of \<^verbatim>\<open>config\<close> and its return. The literal is
  evaluated left to right; the cell of a literal is allocated here once its property
  values are evaluated, where JavaScript creates the enclosing object first: the same
  cells at other addresses, and a program cannot observe an address.
\<close>

definition update :: "jsval list \<Rightarrow> world \<Rightarrow> outcome \<times> world" where
  "update args w0 =
    (let (params0, w1) = new_object [(''message'', Str ''git pull'')] w0;
         (step0, w2) = new_object [(''method'', Str ''shell.run''), (''params'', params0)] w1;
         (params1, w3) = new_object
            [(''message'', Str ''git pull --tags''), (''path'', Str ''facefusion'')] w2;
         (step1, w4) = new_object [(''method'', Str ''shell.run''), (''params'', params1)] w3;
         (params2, w5) = new_object
            [(''message'', Str ''git checkout 2.5.3''), (''path'', Str ''facefusion'')] w4;
         (step2, w6) = new_object [(''method'', Str ''shell.run''), (''params'', params2)] w5;
         (run, w7) = new_array [step0, step1, step2] w6;
         (config, w8) = new_object [(''run'', run)] w7
     in (Returned config, w8))"

subsection \<open>Observing a returned value\<close>

text \<open>
  The structure of a value, with the identities of its cells forgotten: what a deep
  comparison or a serialisation of the value sees.
\<close>

datatype json = JUndefined | JStr string | JObj "(string \<times> json) list" | JArr "json list"

text \<open>
  \<open>snapshot n h v\<close> reads the structure of \<open>v\<close> out of the store \<open>h\<close>, following
  references at most \<open>n\<close> levels deep. A store may hold cycles, so the depth is bounded:
  \<open>None\<close> means that the bound was reached or that a reference points outside the store.
\<close>

primrec snapshot :: "nat \<Rightarrow> jsobj list \<Rightarrow> jsval \<Rightarrow> json option" where
  "snapshot 0 h v = None"
| "snapshot (Suc n) h v =
    (case v of
       Undefined \<Rightarrow> Some JUndefined
     | Str s \<Rightarrow> Some (JStr s)
     | Ref a \<Rightarrow>
        (if a < length h then
           (case h ! a of
              Object ps \<Rightarrow>
                map_option JObj
                  (those (map (\<lambda>(k, x). map_option (Pair k) (snapshot n h x)) ps))
            | Array xs \<Rightarrow> map_option JArr (those (map (snapshot n h) xs)))
         else None))"


text \<open>The structure of what a call returns; \<open>None\<close> also when the call throws.\<close>

definition observe :: "nat \<Rightarrow> jsval list \<Rightarrow> world \<Rightarrow> json option" where
  "observe n args w =
    (case update args w of
       (Returned v, w') \<Rightarrow> snapshot n (heap w') v
     | (Thrown e, w') \<Rightarrow> None)"

text \<open>
  Reading a structure as the host does: \<open>field k j\<close> is the own property \<open>k\<close> of an
  object (\<open>None\<close> when the object has no such key, or \<open>j\<close> is not an object), \<open>keys j\<close>
  are the own keys of an object in order, \<open>elems j\<close> the elements of an array.
\<close>

definition field :: "string \<Rightarrow> json \<Rightarrow> json option" where
  "field k j = (case j of JObj ps \<Rightarrow> map_of ps k | _ \<Rightarrow> None)"

definition keys :: "json \<Rightarrow> string list option" where
  "keys j = (case j of JObj ps \<Rightarrow> Some (map fst ps) | _ \<Rightarrow> None)"

definition elems :: "json \<Rightarrow> json list option" where
  "elems j = (case j of JArr xs \<Rightarrow> Some xs | _ \<Rightarrow> None)"

text \<open>
  The step list of a call: the elements of the \<^verbatim>\<open>run\<close> property of the returned
  object. Of a step, \<open>step_method\<close> is its \<^verbatim>\<open>method\<close>, \<open>step_params\<close> its
  \<^verbatim>\<open>params\<close> object, \<open>message\<close> and \<open>path\<close> are \<^verbatim>\<open>params.message\<close> and
  \<^verbatim>\<open>params.path\<close>.
\<close>

definition steps :: "nat \<Rightarrow> jsval list \<Rightarrow> world \<Rightarrow> json list option" where
  "steps n args w = Option.bind (Option.bind (observe n args w) (field ''run'')) elems"

definition step_method :: "json \<Rightarrow> json option" where
  "step_method s = field ''method'' s"

definition step_params :: "json \<Rightarrow> json option" where
  "step_params s = field ''params'' s"

definition message :: "json \<Rightarrow> json option" where
  "message s = Option.bind (step_params s) (field ''message'')"

definition path :: "json \<Rightarrow> json option" where
  "path s = Option.bind (step_params s) (field ''path'')"

section \<open>What a call does to the store\<close>

text \<open>
  A call appends eight cells to the store and returns a reference to the last one.
  With \<open>n\<close> the size of the store before the call, the cells are, from address \<open>n\<close> on:
  the \<^verbatim>\<open>params\<close> and the step of the first, second and third step, the array, and the
  \<^verbatim>\<open>config\<close> object.
\<close>

lemma update_result:
  "update args w =
    (Returned (Ref (length (heap w) + 7)),
     w\<lparr>heap := heap w @
       [Object [(''message'', Str ''git pull'')],
        Object [(''method'', Str ''shell.run''), (''params'', Ref (length (heap w)))],
        Object [(''message'', Str ''git pull --tags''), (''path'', Str ''facefusion'')],
        Object [(''method'', Str ''shell.run''), (''params'', Ref (length (heap w) + 2))],
        Object [(''message'', Str ''git checkout 2.5.3''), (''path'', Str ''facefusion'')],
        Object [(''method'', Str ''shell.run''), (''params'', Ref (length (heap w) + 4))],
        Array [Ref (length (heap w) + 1), Ref (length (heap w) + 3),
               Ref (length (heap w) + 5)],
        Object [(''run'', Ref (length (heap w) + 6))]]\<rparr>)"
  by (simp add: update_def new_object_def new_array_def)





lemma update_effects: "effects (snd (update args w)) = effects w"
  by (simp add: update_result)

section \<open>The structure of the returned value\<close>

text \<open>
  The returned object is four references deep (object, array, step, parameters) and
  ends in strings, so a bound of five reads all of it; \<open>5 + k\<close> is any bound that
  suffices.
\<close>

lemma fuel_five: "5 + k = Suc (Suc (Suc (Suc (Suc k))))"
  by simp

lemma observe_fuel:
  "observe (Suc (Suc (Suc (Suc (Suc k))))) args w =
    Some (JObj [(''run'', JArr
      [JObj [(''method'', JStr ''shell.run''),
             (''params'', JObj [(''message'', JStr ''git pull'')])],
       JObj [(''method'', JStr ''shell.run''),
             (''params'', JObj [(''message'', JStr ''git pull --tags''),
                                (''path'', JStr ''facefusion'')])],
       JObj [(''method'', JStr ''shell.run''),
             (''params'', JObj [(''message'', JStr ''git checkout 2.5.3''),
                                (''path'', JStr ''facefusion'')])]])])"
  by (simp add: observe_def update_result nth_append)

lemma observe_enough:
  "observe (5 + k) args w =
    Some (JObj [(''run'', JArr
      [JObj [(''method'', JStr ''shell.run''),
             (''params'', JObj [(''message'', JStr ''git pull'')])],
       JObj [(''method'', JStr ''shell.run''),
             (''params'', JObj [(''message'', JStr ''git pull --tags''),
                                (''path'', JStr ''facefusion'')])],
       JObj [(''method'', JStr ''shell.run''),
             (''params'', JObj [(''message'', JStr ''git checkout 2.5.3''),
                                (''path'', JStr ''facefusion'')])]])])"
  by (simp only: fuel_five observe_fuel)

lemmas readers =
  field_def keys_def elems_def step_method_def step_params_def message_def path_def

lemma steps_enough:
  "steps (5 + k) args w =
    Some [JObj [(''method'', JStr ''shell.run''),
                (''params'', JObj [(''message'', JStr ''git pull'')])],
          JObj [(''method'', JStr ''shell.run''),
                (''params'', JObj [(''message'', JStr ''git pull --tags''),
                                   (''path'', JStr ''facefusion'')])],
          JObj [(''method'', JStr ''shell.run''),
                (''params'', JObj [(''message'', JStr ''git checkout 2.5.3''),
                                   (''path'', JStr ''facefusion'')])]]"
  by (simp add: steps_def observe_enough field_def elems_def)


lemma fuel_four: "4 + k = Suc (Suc (Suc (Suc k)))"
  by simp

text \<open>
  The array that the \<^verbatim>\<open>run\<close> property refers to is the cell before the last; it is
  three references deep, so a bound of four reads it.
\<close>

lemma run_snapshot:
  "snapshot (4 + k) (heap (snd (update args w))) (Ref (length (heap w) + 6)) =
    Some (JArr
      [JObj [(''method'', JStr ''shell.run''),
             (''params'', JObj [(''message'', JStr ''git pull'')])],
       JObj [(''method'', JStr ''shell.run''),
             (''params'', JObj [(''message'', JStr ''git pull --tags''),
                                (''path'', JStr ''facefusion'')])],
       JObj [(''method'', JStr ''shell.run''),
             (''params'', JObj [(''message'', JStr ''git checkout 2.5.3''),
                                (''path'', JStr ''facefusion'')])]])"
  by (simp add: fuel_four update_result nth_append)

subsection \<open>The cells of the returned value\<close>




subsection \<open>Growing the store keeps every structure\<close>

lemma those_map_mono:
  "(\<And>x y. x \<in> set xs \<Longrightarrow> f x = Some y \<Longrightarrow> g x = Some y) \<Longrightarrow>
   those (map f xs) = Some ys \<Longrightarrow> those (map g xs) = Some ys"
proof (induction xs arbitrary: ys)
  case Nil
  then show ?case by simp
next
  case (Cons x xs)
  from Cons.prems(2) obtain y zs where
    fx: "f x = Some y" and rest: "those (map f xs) = Some zs" and ys: "ys = y # zs"
    by (auto split: option.splits)
  from Cons.prems(1) fx have "g x = Some y" by simp
  moreover from Cons.IH rest Cons.prems(1) have "those (map g xs) = Some zs" by simp
  ultimately show ?case using ys by simp
qed

text \<open>
  A structure that can be read from a store is read unchanged from any extension of
  the store: reading follows references to cells that exist, and an extension keeps
  them.
\<close>

lemma snapshot_append:
  "snapshot n h v = Some j \<Longrightarrow> snapshot n (h @ h') v = Some j"
proof (induction n arbitrary: v j)
  case 0
  then show ?case by simp
next
  case (Suc n)
  show ?case
  proof (cases v)
    case Undefined
    with Suc.prems show ?thesis by simp
  next
    case (Str s)
    with Suc.prems show ?thesis by simp
  next
    case (Ref a)
    with Suc.prems have a: "a < length h"
      by (simp split: if_splits)
    show ?thesis
    proof (cases "h ! a")
      case (Object ps)
      with Suc.prems Ref a obtain js where
        js: "those (map (\<lambda>(k, x). map_option (Pair k) (snapshot n h x)) ps) = Some js"
        and j: "j = JObj js"
        by auto
      have "those (map (\<lambda>(k, x). map_option (Pair k) (snapshot n (h @ h') x)) ps) = Some js"
        using _ js
      proof (rule those_map_mono)
        fix p y
        assume "(case p of (k, x) \<Rightarrow> map_option (Pair k) (snapshot n h x)) = Some y"
        then show "(case p of (k, x) \<Rightarrow> map_option (Pair k) (snapshot n (h @ h') x)) = Some y"
          by (cases p) (auto dest: Suc.IH)
      qed
      with Ref a Object j show ?thesis
        by (simp add: nth_append)
    next
      case (Array xs)
      with Suc.prems Ref a obtain js where
        js: "those (map (snapshot n h) xs) = Some js" and j: "j = JArr js"
        by auto
      have "those (map (snapshot n (h @ h')) xs) = Some js"
        using _ js by (rule those_map_mono) (rule Suc.IH)
      with Ref a Array j show ?thesis
        by (simp add: nth_append)
    qed
  qed
qed

section \<open>The properties of the specification\<close>

text \<open>
  Claim C1. Whatever the arguments and the world of a call, the step list of the
  returned value (its \<^verbatim>\<open>run\<close> property, read with any sufficient bound) is exactly
  the three literal steps in the order of the source: the messages are
  \<^verbatim>\<open>git pull\<close>, \<^verbatim>\<open>git pull --tags\<close> and \<^verbatim>\<open>git checkout 2.5.3\<close>; the first step has no
  path and the second and third have the path \<^verbatim>\<open>facefusion\<close>.
\<close>

theorem producer_steps_exact:
  "steps (5 + k) args w =
     Some [JObj [(''method'', JStr ''shell.run''),
                 (''params'', JObj [(''message'', JStr ''git pull'')])],
           JObj [(''method'', JStr ''shell.run''),
                 (''params'', JObj [(''message'', JStr ''git pull --tags''),
                                    (''path'', JStr ''facefusion'')])],
           JObj [(''method'', JStr ''shell.run''),
                 (''params'', JObj [(''message'', JStr ''git checkout 2.5.3''),
                                    (''path'', JStr ''facefusion'')])]]
   \<and> map_option (map message) (steps (5 + k) args w) =
     Some [Some (JStr ''git pull''), Some (JStr ''git pull --tags''),
           Some (JStr ''git checkout 2.5.3'')]
   \<and> map_option (map path) (steps (5 + k) args w) =
     Some [None, Some (JStr ''facefusion''), Some (JStr ''facefusion'')]"
  by (simp add: steps_enough readers)

text \<open>
  Claim C2. The function is deterministic: any two calls, with whatever arguments and
  in whatever worlds, return values of the same structure; in particular a second call
  made in the world the first one left returns the structure the first one returned.
  The structure is defined, so the equality is not one of two failed readings.
\<close>

theorem producer_deterministic:
  "observe (5 + k) args w = observe (5 + k') args' w'
   \<and> observe (5 + k) args' (snd (update args w)) = observe (5 + k) args w
   \<and> observe (5 + k) args w \<noteq> None"
  by (simp add: observe_enough)

text \<open>
  Claim C3. The function is total: every call returns a value, no call throws, and the
  returned value is well formed (its structure can be read from the store the call
  leaves, no reference of it dangles).
\<close>

theorem producer_total:
  "(\<exists>v w'. update args w = (Returned v, w') \<and> snapshot (5 + k) (heap w') v \<noteq> None)
   \<and> (\<forall>e w'. update args w \<noteq> (Thrown e, w'))"
proof -
  obtain v w' where u: "update args w = (Returned v, w')"
    by (simp add: update_result)
  have "observe (5 + k) args w \<noteq> None"
    by (simp add: observe_enough)
  with u have "snapshot (5 + k) (heap w') v \<noteq> None"
    by (simp add: observe_def)
  with u show ?thesis by auto
qed

text \<open>
  Claim C4. The shape of the step list: every call returns exactly three steps, so the
  list is not empty; the \<^verbatim>\<open>method\<close> of every step is the shell-execution identifier
  \<^verbatim>\<open>shell.run\<close>; the \<^verbatim>\<open>params.message\<close> of every step is a string that is not empty.
\<close>

theorem producer_shape:
  "\<exists>ss. steps (5 + k) args w = Some ss \<and> length ss = 3 \<and> ss \<noteq> []
     \<and> list_all (\<lambda>s. step_method s = Some (JStr ''shell.run'')) ss
     \<and> list_all (\<lambda>s. \<exists>m. message s = Some (JStr m) \<and> m \<noteq> []) ss"
  by (simp add: steps_enough readers)

text \<open>
  Claim C5. The function is pure: a call leaves the trace of host effects (processes,
  files, network) and the process-wide bindings as they were, and changes no cell that
  existed before the call; all it does to the store is to append its own new cells.
  So every structure that could be read before the call is read unchanged after it.
\<close>

theorem producer_pure:
  "effects (snd (update args w)) = effects w
   \<and> globals (snd (update args w)) = globals w
   \<and> take (length (heap w)) (heap (snd (update args w))) = heap w
   \<and> (\<forall>n v j. snapshot n (heap w) v = Some j \<longrightarrow>
         snapshot n (heap (snd (update args w))) v = Some j)"
  by (simp add: update_result snapshot_append)

theorem producer_pure_witness:
  "snapshot 2 (heap \<lparr>heap = [Array [Str ''kept'']], globals = [(''HOME'', Str ''/root'')],
                      effects = [Spawn ''node'']\<rparr>) (Ref 0) = Some (JArr [JStr ''kept''])
   \<and> snapshot 2
        (heap (snd (update [Str ''ignored'']
           \<lparr>heap = [Array [Str ''kept'']], globals = [(''HOME'', Str ''/root'')],
            effects = [Spawn ''node'']\<rparr>))) (Ref 0) = Some (JArr [JStr ''kept''])
   \<and> globals (snd (update [Str ''ignored'']
           \<lparr>heap = [Array [Str ''kept'']], globals = [(''HOME'', Str ''/root'')],
            effects = [Spawn ''node'']\<rparr>)) = [(''HOME'', Str ''/root'')]
   \<and> effects (snd (update [Str ''ignored'']
           \<lparr>heap = [Array [Str ''kept'']], globals = [(''HOME'', Str ''/root'')],
            effects = [Spawn ''node'']\<rparr>)) = [Spawn ''node'']"
proof -
  let ?w = "\<lparr>heap = [Array [Str ''kept'']], globals = [(''HOME'', Str ''/root'')],
             effects = [Spawn ''node'']\<rparr>"
  have before: "snapshot 2 (heap ?w) (Ref 0) = Some (JArr [JStr ''kept''])"
    by (simp add: eval_nat_numeral)
  from producer_pure [of "[Str ''ignored'']" ?w] before
  have "snapshot 2 (heap (snd (update [Str ''ignored''] ?w))) (Ref 0) = Some (JArr [JStr ''kept''])"
    by blast
  moreover from producer_pure [of "[Str ''ignored'']" ?w]
  have "globals (snd (update [Str ''ignored''] ?w)) = [(''HOME'', Str ''/root'')]"
    and "effects (snd (update [Str ''ignored''] ?w)) = [Spawn ''node'']"
    by simp_all
  ultimately show ?thesis using before by simp
qed


text \<open>
  Claim C7. The function takes no input. A call with any arguments is the call with no
  argument; and the structure it returns is the one returned in the empty world, so it
  depends on nothing the caller or the environment holds: not on the cells of the
  store, not on the process-wide bindings, not on what the process did before.
\<close>

theorem producer_no_input:
  "update args w = update [] w
   \<and> observe (5 + k) args w = observe (5 + k) [] \<lparr>heap = [], globals = [], effects = []\<rparr>
   \<and> observe (5 + k) args (w\<lparr>heap := h, globals := g, effects := e\<rparr>) = observe (5 + k) args w
   \<and> observe (5 + k) args w \<noteq> None"
  by (simp add: update_def observe_enough)

text \<open>
  Claim C8. The returned value is not the step list itself. It is a reference to an
  object whose only property is \<^verbatim>\<open>run\<close>, and that property holds the ordered step
  list: it refers to an array of three elements whose structure is the three literal
  steps in the order of the source, which is what \<open>steps\<close> reads. Read as an array the
  returned value gives nothing; its keys are \<^verbatim>\<open>run\<close> alone.
\<close>

theorem producer_returns_config_object:
  "(\<exists>r a xs w'. update args w = (Returned (Ref r), w')
       \<and> r < length (heap w') \<and> heap w' ! r = Object [(''run'', Ref a)]
       \<and> a < length (heap w') \<and> heap w' ! a = Array xs \<and> length xs = 3
       \<and> snapshot (4 + k) (heap w') (Ref a) =
           Some (JArr
             [JObj [(''method'', JStr ''shell.run''),
                    (''params'', JObj [(''message'', JStr ''git pull'')])],
              JObj [(''method'', JStr ''shell.run''),
                    (''params'', JObj [(''message'', JStr ''git pull --tags''),
                                       (''path'', JStr ''facefusion'')])],
              JObj [(''method'', JStr ''shell.run''),
                    (''params'', JObj [(''message'', JStr ''git checkout 2.5.3''),
                                       (''path'', JStr ''facefusion'')])]]))
   \<and> Option.bind (observe (5 + k) args w) keys = Some [''run'']
   \<and> Option.bind (observe (5 + k) args w) elems = None
   \<and> Option.bind (observe (5 + k) args w) (field ''run'') \<noteq> None
   \<and> map_option length (steps (5 + k) args w) = Some 3
   \<and> Option.bind (observe (5 + k) args w) (field ''run'') =
       Some (JArr
         [JObj [(''method'', JStr ''shell.run''),
                (''params'', JObj [(''message'', JStr ''git pull'')])],
          JObj [(''method'', JStr ''shell.run''),
                (''params'', JObj [(''message'', JStr ''git pull --tags''),
                                   (''path'', JStr ''facefusion'')])],
          JObj [(''method'', JStr ''shell.run''),
                (''params'', JObj [(''message'', JStr ''git checkout 2.5.3''),
                                   (''path'', JStr ''facefusion'')])]])
   \<and> map_option JArr (steps (5 + k) args w) =
       Option.bind (observe (5 + k) args w) (field ''run'')"
proof -
  let ?w' = "snd (update args w)"
  let ?n = "length (heap w)"
  have u: "update args w = (Returned (Ref (?n + 7)), ?w')"
    by (simp add: update_result)
  have cells: "?n + 7 < length (heap ?w')" "heap ?w' ! (?n + 7) = Object [(''run'', Ref (?n + 6))]"
    "?n + 6 < length (heap ?w')"
    "heap ?w' ! (?n + 6) = Array [Ref (?n + 1), Ref (?n + 3), Ref (?n + 5)]"
    by (simp_all add: update_result nth_append)
  have store: "\<exists>r a xs w'. update args w = (Returned (Ref r), w')
       \<and> r < length (heap w') \<and> heap w' ! r = Object [(''run'', Ref a)]
       \<and> a < length (heap w') \<and> heap w' ! a = Array xs \<and> length xs = 3
       \<and> snapshot (4 + k) (heap w') (Ref a) =
           Some (JArr
             [JObj [(''method'', JStr ''shell.run''),
                    (''params'', JObj [(''message'', JStr ''git pull'')])],
              JObj [(''method'', JStr ''shell.run''),
                    (''params'', JObj [(''message'', JStr ''git pull --tags''),
                                       (''path'', JStr ''facefusion'')])],
              JObj [(''method'', JStr ''shell.run''),
                    (''params'', JObj [(''message'', JStr ''git checkout 2.5.3''),
                                       (''path'', JStr ''facefusion'')])]])"
    apply (rule exI [of _ "?n + 7"], rule exI [of _ "?n + 6"])
    apply (rule exI [of _ "[Ref (?n + 1), Ref (?n + 3), Ref (?n + 5)]"], rule exI [of _ ?w'])
    using u cells run_snapshot [of k args w]
    apply simp
    done
  have read: "Option.bind (observe (5 + k) args w) keys = Some [''run'']"
    "Option.bind (observe (5 + k) args w) elems = None"
    "Option.bind (observe (5 + k) args w) (field ''run'') \<noteq> None"
    "map_option length (steps (5 + k) args w) = Some 3"
    "Option.bind (observe (5 + k) args w) (field ''run'') =
       Some (JArr
         [JObj [(''method'', JStr ''shell.run''),
                (''params'', JObj [(''message'', JStr ''git pull'')])],
          JObj [(''method'', JStr ''shell.run''),
                (''params'', JObj [(''message'', JStr ''git pull --tags''),
                                   (''path'', JStr ''facefusion'')])],
          JObj [(''method'', JStr ''shell.run''),
                (''params'', JObj [(''message'', JStr ''git checkout 2.5.3''),
                                   (''path'', JStr ''facefusion'')])]])"
    "map_option JArr (steps (5 + k) args w) =
       Option.bind (observe (5 + k) args w) (field ''run'')"
    by (simp_all add: observe_enough steps_enough readers)
  from store read show ?thesis by (simp only: simp_thms)
qed

text \<open>
  Claim C9. The \<^verbatim>\<open>method\<close> of each of the three steps is the literal string
  \<^verbatim>\<open>shell.run\<close>.
\<close>

theorem producer_method_literal:
  "map_option (map step_method) (steps (5 + k) args w) =
     Some [Some (JStr ''shell.run''), Some (JStr ''shell.run''), Some (JStr ''shell.run'')]"
  by (simp add: steps_enough readers)

text \<open>
  Claim C10. The keys of the \<^verbatim>\<open>params\<close> objects: \<^verbatim>\<open>message\<close> alone for the first step,
  \<^verbatim>\<open>message\<close> and \<^verbatim>\<open>path\<close> for the second and the third, and no other key. The first
  step has no \<^verbatim>\<open>path\<close> property at all, rather than one with an empty value.
\<close>

theorem producer_params_keys:
  "map_option (map (\<lambda>s. Option.bind (step_params s) keys)) (steps (5 + k) args w) =
     Some [Some [''message''], Some [''message'', ''path''], Some [''message'', ''path'']]
   \<and> map_option (map (\<lambda>s. Option.bind (step_params s) (field ''path'')))
       (steps (5 + k) args w) =
     Some [None, Some (JStr ''facefusion''), Some (JStr ''facefusion'')]"
  by (simp add: steps_enough readers)

end
